theory Spec2Isabelle
  imports Main "HOL-Library.Word" "HOL-Library.Sublist"
begin

unbundle bit_operations_syntax

section \<open>The domain registry of the desktop client (domain-util)\<close>

text \<open>
  A shallow embedding of class \<open>DomainUtil\<close>: the URL normaliser \<open>formatUrl\<close>, the
  verifier \<open>getServerSettings\<close> / \<open>checkCertError\<close> / \<open>checkDomain\<close>, the icon fetcher
  \<open>generateFilePath\<close> / \<open>saveServerIcon\<close> and the registry operations over the JSON store.
  JavaScript strings are modelled as \<open>string\<close>; a character stands for a UTF-16 code
  unit below 256, which covers the URLs the registry handles.
\<close>

subsection \<open>JavaScript string primitives\<close>

text \<open>
  \<open>s.indexOf(t)\<close>: the least position at which \<open>t\<close> occurs in \<open>s\<close>, or \<open>-1\<close>.
  The accumulator is the position of the suffix being examined.
\<close>

fun indexOf_from :: "string \<Rightarrow> string \<Rightarrow> int \<Rightarrow> int" where
  "indexOf_from [] t k = (if t = [] then k else - 1)"
| "indexOf_from (c # cs) t k = (if prefix t (c # cs) then k else indexOf_from cs t (k + 1))"

definition indexOf :: "string \<Rightarrow> string \<Rightarrow> int" where
  "indexOf s t = indexOf_from s t 0"

text \<open>\<open>s.includes(t)\<close> and \<open>s.startsWith(t)\<close>.\<close>

definition includes_js :: "string \<Rightarrow> string \<Rightarrow> bool" where
  "includes_js s t = (indexOf s t \<noteq> - 1)"

definition startsWith :: "string \<Rightarrow> string \<Rightarrow> bool" where
  "startsWith s t = prefix t s"

text \<open>\<open>s.split('?')[0]\<close>: the part of \<open>s\<close> before the first question mark.\<close>

definition split_query_head :: "string \<Rightarrow> string" where
  "split_query_head s = takeWhile (\<lambda>c. c \<noteq> CHR ''?'') s"

text \<open>The decimal rendering of a non-negative integer in a template string.\<close>

definition digit_char :: "nat \<Rightarrow> char" where
  "digit_char d = ''0123456789'' ! d"

fun decimal :: "nat \<Rightarrow> string" where
  "decimal n = (if n < 10 then [digit_char n] else decimal (n div 10) @ [digit_char (n mod 10)])"

declare decimal.simps [simp del]

subsection \<open>The URL normaliser\<close>

definition formatUrl :: "string \<Rightarrow> string" where
  "formatUrl d =
     (let hasPrefix = (indexOf d ''http'' = 0) in
      if hasPrefix then d
      else if indexOf d ''localhost:'' \<ge> 0 then ''http://'' @ d else ''https://'' @ d)"

text \<open>
  The normaliser in the specification's words, for comparison: an input "begins with an
  HTTP/HTTPS scheme" when it starts with \<open>http://\<close> or \<open>https://\<close>, and it "contains
  \<open>localhost:<port>\<close>" when a digit follows some occurrence of \<open>localhost:\<close>.
\<close>

definition spec_has_http_scheme :: "string \<Rightarrow> bool" where
  "spec_has_http_scheme d = (prefix ''http://'' d \<or> prefix ''https://'' d)"

definition spec_localhost_port :: "string \<Rightarrow> bool" where
  "spec_localhost_port d = (\<exists>c \<in> set ''0123456789''. sublist (''localhost:'' @ [c]) d)"

definition spec_normalize :: "string \<Rightarrow> string" where
  "spec_normalize d =
     (if spec_has_http_scheme d then d
      else if spec_localhost_port d then ''http://'' @ d
      else ''https://'' @ d)"

subsection \<open>Bitwise operators on JavaScript numbers\<close>

text \<open>
  \<open>a ^ b\<close> converts both operands to signed 32-bit integers (ToInt32, reduction modulo
  \<open>2 ^ 32\<close>) and returns a signed 32-bit integer; \<open>x >>> 0\<close> reads the same 32 bits
  unsigned. The operands that occur in \<open>generateFilePath\<close> are integers of magnitude
  below \<open>2 ^ 53\<close> (lemma \<open>hash_step_exact\<close> below), so the double-precision
  product \<open>hash * 33\<close> is the exact integer product.
\<close>

definition bitxor_js :: "int \<Rightarrow> int \<Rightarrow> int" where
  "bitxor_js a b = sint ((word_of_int a :: 32 word) XOR (word_of_int b :: 32 word))"

definition ushr0 :: "int \<Rightarrow> nat" where
  "ushr0 x = unat (word_of_int x :: 32 word)"

text \<open>\<open>s.charCodeAt(i)\<close> for \<open>i < s.length\<close>, the only indices the hash loop reads.\<close>

definition charCodeAt :: "string \<Rightarrow> nat \<Rightarrow> int" where
  "charCodeAt s i = int (of_char (s ! i))"

subsection \<open>File extension of a path\<close>

text \<open>
  Node's \<open>path.extname\<close>, in its POSIX variant (segments are separated by slashes):
  trailing slashes are ignored, the last path segment is taken, and the result runs from
  the last dot of that segment to its end; it is empty when the segment has no dot, when
  its last dot is its first character, or when the segment is \<open>..\<close>.
\<close>

definition last_segment :: "string \<Rightarrow> string" where
  "last_segment p =
     rev (takeWhile (\<lambda>c. c \<noteq> CHR ''/'') (dropWhile (\<lambda>c. c = CHR ''/'') (rev p)))"

definition extname :: "string \<Rightarrow> string" where
  "extname p =
     (let base = last_segment p;
          after_dot = takeWhile (\<lambda>c. c \<noteq> CHR ''.'') (rev base);
          startDot = length base - Suc (length after_dot)
      in if CHR ''.'' \<notin> set base \<or> startDot = 0 \<or> base = ''..'' then []
         else drop startDot base)"

subsection \<open>The icon file name\<close>

text \<open>
  The loop \<open>while (len) { hash = (hash * 33) ^ url.charCodeAt(--len); }\<close>, by recursion
  on \<open>len\<close>.
\<close>

fun hash_loop :: "string \<Rightarrow> nat \<Rightarrow> int \<Rightarrow> int" where
  "hash_loop u 0 hash = hash"
| "hash_loop u (Suc len) hash = hash_loop u len (bitxor_js (hash * 33) (charCodeAt u len))"

text \<open>The file name \<open>${hash >>> 0}${extension}\<close> that \<open>generateFilePath\<close> appends to the directory.\<close>

definition generateFileName :: "string \<Rightarrow> string" where
  "generateFileName u =
     (let extension = split_query_head (extname u);
          hash = hash_loop u (length u) 5381
      in decimal (ushr0 hash) @ extension)"

text \<open>
  The specification's wording, for comparison: an unsigned 32-bit rolling hash with seed
  5381 and step "multiply by 33, XOR the character", taken right to left, followed by the
  extension of the URL from which the query string has been stripped first.
\<close>

definition spec_hash :: "string \<Rightarrow> 32 word" where
  "spec_hash u = foldr (\<lambda>c h. (h * 33) XOR of_nat (of_char c)) u 5381"

definition spec_fileName :: "string \<Rightarrow> string" where
  "spec_fileName u = decimal (unat (spec_hash u)) @ extname (split_query_head u)"

subsection \<open>Records, the store and the environment\<close>

text \<open>A domain record. The field \<open>alias\<close> of the source is \<open>alias_name\<close> here.\<close>

record server_conf =
  icon :: string
  url :: string
  alias_name :: string
  ignoreCerts :: bool

definition defaultIconUrl :: string where
  "defaultIconUrl = ''../renderer/img/icon.png''"

text \<open>
  The file \<open>config/domain.json\<close>: either text that \<open>JSON.parse\<close> rejects, or a document
  whose \<open>domains\<close> key is absent (\<open>None\<close>) or holds the ordered collection of records.
\<close>

datatype db_file = Corrupt | Doc "server_conf list option"

text \<open>
  Observable effects, in the order in which they happen: \<open>fs.mkdirSync\<close>,
  \<open>fs.createWriteStream\<close>, a call of \<open>request\<close> (with the URL and whether certificate
  validation is switched off), \<open>dialog.showMessageBox\<close> and \<open>dialog.showErrorBox\<close>.
  Logging and error reporting are left out.
\<close>

datatype event =
    MkdirSync string
  | CreateWriteStream string
  | HttpRequest string bool
  | MessageBox string
  | ErrorBox

record world =
  db :: db_file
  dirs :: "string set"
  files :: "string \<rightharpoonup> string"
  trace :: "event list"

text \<open>Exceptions of the runtime and of the store library.\<close>

datatype exn = DataError | DatabaseError | TypeError

text \<open>
  Values that are thrown or passed to \<open>reject\<close>: \<open>undefined\<close>, a response object, a
  string, an \<open>Error\<close> made with \<open>new Error(message)\<close>, or an exception thrown by a
  library call.
\<close>

datatype js_value = Undefined | ResponseObj nat | Str string | ErrorObj string | Thrown exn

text \<open>
  The state of a promise once the event loop is idle. \<open>Pending\<close>: neither \<open>resolve\<close> nor
  \<open>reject\<close> was ever called.
\<close>

datatype 'a promise = Resolved 'a | Rejected js_value | Pending

text \<open>
  The result of a synchronous registry operation. \<open>Sparse\<close>: an assignment beyond the end
  of the \<open>domains\<close> array left null entries in it, a document that is no collection of
  records any more.
\<close>

datatype 'a result = Ok 'a | Throws exn | Sparse

text \<open>
  What the \<open>request\<close> library hands to the callback of \<open>getServerSettings\<close>: an error
  (with its text) and no response, or a response with a status code and a body.
  \<open>Malformed\<close> is a body on which \<open>JSON.parse\<close> throws. In a parsed body \<open>realm_icon\<close> is \<open>None\<close> when the
  property is absent.
\<close>

record settings =
  realm_icon :: "string option"
  realm_uri :: string
  realm_name :: string

datatype body = Malformed | Json settings

datatype reply = NetError string | Reply nat body

text \<open>
  What happens to the icon download: \<open>request(...)\<close> throws, the request emits
  \<open>error\<close>, the response emits \<open>error\<close> after some bytes, the piped stream finishes,
  or none of these events ever arrives (the server does not answer, and no timeout is
  set).
\<close>

datatype icon_reply =
    RequestThrows
  | RequestError
  | ResponseError string
  | ResponseFinish string
  | NoAnswer

text \<open>
  The argument \<open>server\<close> of \<open>saveServerIcon\<close>: a domain record or, as the
  \<open>update-realm-icon\<close> handler of the renderer passes it, a plain string, whose
  \<open>icon\<close> property is \<open>undefined\<close>.
\<close>

datatype server_arg = Conf server_conf | PlainString string

fun icon_of :: "server_arg \<Rightarrow> string option" where
  "icon_of (Conf s) = Some (icon s)"
| "icon_of (PlainString t) = None"

text \<open>
  The collaborators of the registry: the user-data path, the network (a request is
  identified by its URL and by whether certificate validation is switched off), the
  button the user presses in the trust dialog, and the texts of \<open>resources/messages.js\<close>.
\<close>

record env =
  userData :: string
  settingsRequest :: "string \<Rightarrow> bool \<Rightarrow> reply"
  iconRequest :: "string \<Rightarrow> bool \<Rightarrow> icon_reply"
  showMessageBox :: "string \<Rightarrow> nat"
  noOrgsError :: "string \<Rightarrow> string"
  invalidZulipServerError :: "string \<Rightarrow> string"
  certErrorMessage :: "string \<Rightarrow> js_value \<Rightarrow> string"

definition emit :: "event \<Rightarrow> world \<Rightarrow> world" where
  "emit ev w = w\<lparr>trace := trace w @ [ev]\<rparr>"

text \<open>
  \<open>String(v)\<close> and \<open>v || ''\<close>. An exception of a library prints as its name followed
  by a message; the message is left out.
\<close>

fun exn_name :: "exn \<Rightarrow> string" where
  "exn_name DataError = ''DataError''"
| "exn_name DatabaseError = ''DatabaseError''"
| "exn_name TypeError = ''TypeError''"

fun toString :: "js_value \<Rightarrow> string" where
  "toString Undefined = ''undefined''"
| "toString (ResponseObj code) = ''[object Object]''"
| "toString (Str s) = s"
| "toString (ErrorObj m) = (if m = [] then ''Error'' else ''Error: '' @ m)"
| "toString (Thrown x) = exn_name x"

fun or_empty :: "js_value \<Rightarrow> js_value" where
  "or_empty Undefined = Str []"
| "or_empty (Str s) = Str s"
| "or_empty v = v"

text \<open>The \<open>escape-html\<close> package.\<close>

fun escape_char :: "char \<Rightarrow> string" where
  "escape_char c =
     (if c = CHR 0x22 then ''&quot;''
      else if c = CHR ''&'' then ''&amp;''
      else if c = CHR 0x27 then ''&#39;''
      else if c = CHR ''<'' then ''&lt;''
      else if c = CHR ''>'' then ''&gt;''
      else [c])"

definition escape :: "string \<Rightarrow> string" where
  "escape s = concat (map escape_char s)"

subsection \<open>The persistent store\<close>

text \<open>
  \<open>reloadDB\<close>: a file that does not parse is deleted, an error box is shown, and the
  fresh \<open>JsonDB\<close> object starts from the empty document.
\<close>

definition reloadDB :: "world \<Rightarrow> world" where
  "reloadDB w = (case db w of Corrupt \<Rightarrow> emit ErrorBox (w\<lparr>db := Doc None\<rparr>) | Doc x \<Rightarrow> w)"

definition getDomains :: "world \<Rightarrow> server_conf list \<times> world" where
  "getDomains w =
     (let w1 = reloadDB w
      in (case db w1 of Doc (Some ds) \<Rightarrow> ds | _ \<Rightarrow> [], w1))"

text \<open>\<open>db.getData('/domains[index]')\<close> throws when there is no such entry.\<close>

definition getDomain :: "nat \<Rightarrow> world \<Rightarrow> server_conf result \<times> world" where
  "getDomain index w =
     (let w1 = reloadDB w
      in (case db w1 of
            Doc (Some ds) \<Rightarrow> if index < length ds then Ok (ds ! index) else Throws DataError
          | _ \<Rightarrow> Throws DataError, w1))"

text \<open>
  \<open>db.push('/domains[index]', server, true)\<close> is the JavaScript assignment
  \<open>domains[index] = server\<close> on an array that is created when absent: it replaces an
  entry, appends at \<open>index = length\<close>, and leaves holes beyond.
\<close>

definition push_index :: "server_conf list \<Rightarrow> nat \<Rightarrow> server_conf \<Rightarrow> server_conf list option" where
  "push_index ds index server =
     (if index < length ds then Some (ds[index := server])
      else if index = length ds then Some (ds @ [server])
      else None)"

definition updateDomain :: "nat \<Rightarrow> server_conf \<Rightarrow> world \<Rightarrow> unit result \<times> world" where
  "updateDomain index server w =
     (let w1 = reloadDB w
      in case db w1 of
           Corrupt \<Rightarrow> (Throws DatabaseError, w1)
         | Doc x \<Rightarrow>
             (case push_index (case x of None \<Rightarrow> [] | Some ds \<Rightarrow> ds) index server of
                None \<Rightarrow> (Sparse, w1)
              | Some ds' \<Rightarrow> (Ok (), w1\<lparr>db := Doc (Some ds')\<rparr>)))"

text \<open>
  \<open>db.delete('/domains[index]')\<close> is \<open>domains.splice(index, 1)\<close>; the store is not
  reloaded before it, only after. The library throws when the file does not parse, when
  there is no \<open>domains\<close> array to splice, and when the array has no entry at the index.
  The document that the \<open>JsonDB\<close> object holds in memory is taken to be that of the
  file.
\<close>

definition splice1 :: "'a list \<Rightarrow> nat \<Rightarrow> 'a list" where
  "splice1 ds index = take index ds @ drop (Suc index) ds"

definition removeDomain :: "nat \<Rightarrow> world \<Rightarrow> unit result \<times> world" where
  "removeDomain index w =
     (case db w of
        Corrupt \<Rightarrow> (Throws DatabaseError, w)
      | Doc None \<Rightarrow> (Throws TypeError, w)
      | Doc (Some ds) \<Rightarrow>
          if index < length ds
          then (Ok (), reloadDB (w\<lparr>db := Doc (Some (splice1 ds index))\<rparr>))
          else (Throws DataError, w))"

text \<open>The loop of \<open>duplicateDomain\<close> over the stored records.\<close>

fun url_among :: "server_conf list \<Rightarrow> string \<Rightarrow> bool" where
  "url_among [] d = False"
| "url_among (s # servers) d = (if url s = d then True else url_among servers d)"

definition duplicateDomain :: "string \<Rightarrow> world \<Rightarrow> bool \<times> world" where
  "duplicateDomain d w =
     (let d' = formatUrl d;
          (servers, w1) = getDomains w
      in (url_among servers d', w1))"

subsection \<open>The server verifier\<close>

text \<open>
  \<open>getServerSettings\<close>: the callback rejects with \<open>response\<close>, which is \<open>undefined\<close>
  when the request failed with an error.
\<close>

definition getServerSettings :: "env \<Rightarrow> string \<Rightarrow> bool \<Rightarrow> world \<Rightarrow> server_conf promise \<times> world" where
  "getServerSettings e d ic w =
     (let u = d @ ''/api/v1/server_settings'';
          w1 = emit (HttpRequest u ic) w
      in (case settingsRequest e u ic of
            NetError text \<Rightarrow> Rejected Undefined
          | Reply statusCode b \<Rightarrow>
              if statusCode = 200 then
                (case b of
                   Malformed \<Rightarrow> Pending
                 | Json data \<Rightarrow>
                     (case realm_icon data of
                        None \<Rightarrow> Rejected (Str (noOrgsError e d))
                      | Some i \<Rightarrow>
                          if i \<noteq> [] then
                            Resolved \<lparr>icon = (if startsWith i ''/'' then realm_uri data @ i else i),
                                      url = realm_uri data,
                                      alias_name = escape (realm_name data),
                                      ignoreCerts = ic\<rparr>
                          else Rejected (Str (noOrgsError e d))))
              else Rejected (ResponseObj statusCode), w1))"

text \<open>
  \<open>checkCertError\<close>: in silent mode the configuration it was given is returned as it is;
  otherwise the user is asked, and button 0 (\<open>Yes\<close>) retries without certificate
  validation.
\<close>

definition checkCertError ::
  "env \<Rightarrow> string \<Rightarrow> server_conf \<Rightarrow> js_value \<Rightarrow> bool \<Rightarrow> world \<Rightarrow> server_conf promise \<times> world" where
  "checkCertError e d serverConf error silent w =
     (if silent then (Resolved serverConf, w)
      else
        (let msg = certErrorMessage e d error;
             w1 = emit (MessageBox msg) w;
             response = showMessageBox e msg
         in if response = 0 then
              (let serverConf' = serverConf\<lparr>ignoreCerts := True\<rparr>
               in case getServerSettings e d (ignoreCerts serverConf') w1 of
                    (Resolved r, w2) \<Rightarrow> (Resolved r, w2)
                  | (Rejected err, w2) \<Rightarrow>
                      if error = Str (noOrgsError e d) then (Rejected (ErrorObj (toString error)), w2)
                      else (Resolved serverConf', w2)
                  | (Pending, w2) \<Rightarrow> (Pending, w2))
            else (Rejected (ErrorObj ''Untrusted certificate.''), w1)))"

text \<open>
  The two tests of \<open>checkDomain\<close> that lead to \<open>checkCertError\<close>. The first,
  \<open>domain.indexOf(whitelistDomains) >= 0\<close>, converts the one-element array to the string
  \<open>zulipdev.org\<close>; the second is \<open>error.toString().includes('certificate')\<close>.
\<close>

definition whitelisted :: "string \<Rightarrow> bool" where
  "whitelisted d = (indexOf d ''zulipdev.org'' \<ge> 0)"

definition certsError :: "js_value \<Rightarrow> bool" where
  "certsError error = includes_js (toString error) ''certificate''"

definition checkDomain ::
  "env \<Rightarrow> string \<Rightarrow> bool \<Rightarrow> bool \<Rightarrow> world \<Rightarrow> server_conf promise \<times> world" where
  "checkDomain e d0 ic silent w =
     (let (dup, w0) = (if \<not> silent then duplicateDomain d0 w else (False, w))
      in if dup then (Rejected (ErrorObj ''This server has been added.''), w0)
         else
           (let d = formatUrl d0;
                serverConf = \<lparr>icon = defaultIconUrl, url = d, alias_name = d, ignoreCerts = ic\<rparr>
            in case getServerSettings e d (ignoreCerts serverConf) w0 of
                 (Resolved r, w1) \<Rightarrow> (Resolved r, w1)
               | (Pending, w1) \<Rightarrow> (Pending, w1)
               | (Rejected err, w1) \<Rightarrow>
                   (let error = or_empty err
                    in if whitelisted d \<or> certsError error
                       then checkCertError e d serverConf error silent w1
                       else (Rejected (Str (invalidZulipServerError e d)), w1))))"

subsection \<open>The icon fetcher\<close>

text \<open>
  \<open>generateFilePath\<close>: \<open>path.extname(url)\<close>, its first call, throws a \<open>TypeError\<close> when
  \<open>url\<close> is not a string.
\<close>

definition generateFilePath :: "env \<Rightarrow> string option \<Rightarrow> world \<Rightarrow> (exn + string) \<times> world" where
  "generateFilePath e url_arg w =
     (case url_arg of
        None \<Rightarrow> (Inl TypeError, w)
      | Some u \<Rightarrow>
          (let dir = userData e @ ''/server-icons'';
               w1 = (if dir \<notin> dirs w then (emit (MkdirSync dir) w)\<lparr>dirs := insert dir (dirs w)\<rparr>
                     else w)
           in (Inr (dir @ ''/'' @ generateFileName u), w1)))"

text \<open>\<open>fs.createWriteStream(filePath)\<close> opens the file for writing, which creates or empties it.\<close>

definition createWriteStream :: "string \<Rightarrow> world \<Rightarrow> world" where
  "createWriteStream filePath w =
     (emit (CreateWriteStream filePath) w)\<lparr>files := (files w)(filePath \<mapsto> [])\<rparr>"

text \<open>
  \<open>saveServerIcon\<close>: the promise executor calls \<open>generateFilePath\<close> and
  \<open>fs.createWriteStream\<close> before the \<open>try\<close> block, so an exception of
  \<open>generateFilePath\<close> rejects the promise. Only \<open>resolve\<close> is called by the handlers; when
  no event arrives the promise stays pending. Without a URL \<open>request\<close> itself throws,
  which the \<open>catch\<close> turns into the default icon.
\<close>

definition saveServerIcon :: "env \<Rightarrow> server_arg \<Rightarrow> bool \<Rightarrow> world \<Rightarrow> string promise \<times> world" where
  "saveServerIcon e server ic w =
     (let url_arg = icon_of server
      in case generateFilePath e url_arg w of
           (Inl x, w1) \<Rightarrow> (Rejected (Thrown x), w1)
         | (Inr filePath, w1) \<Rightarrow>
             (let w2 = createWriteStream filePath w1
              in case url_arg of
                   None \<Rightarrow> (Resolved defaultIconUrl, w2)
                 | Some u \<Rightarrow>
                     if u = defaultIconUrl then (Resolved defaultIconUrl, w2)
                     else
                       (let w3 = emit (HttpRequest u ic) w2
                        in case iconRequest e u ic of
                             RequestThrows \<Rightarrow> (Resolved defaultIconUrl, w3)
                           | RequestError \<Rightarrow> (Resolved defaultIconUrl, w3)
                           | ResponseError part \<Rightarrow>
                               (Resolved defaultIconUrl, w3\<lparr>files := (files w3)(filePath \<mapsto> part)\<rparr>)
                           | ResponseFinish content \<Rightarrow>
                               (Resolved filePath, w3\<lparr>files := (files w3)(filePath \<mapsto> content)\<rparr>)
                           | NoAnswer \<Rightarrow> (Pending, w3))))"

subsection \<open>Background refresh\<close>

text \<open>
  \<open>updateSavedServer\<close> reads the stored \<open>ignoreCerts\<close> synchronously (\<open>getDomain\<close> may
  throw) and chains \<open>.then\<close> without a rejection handler: when \<open>checkDomain\<close> does not
  resolve, nothing further happens. The result is the state once the chain has run.
\<close>

definition updateSavedServer :: "env \<Rightarrow> string \<Rightarrow> nat \<Rightarrow> world \<Rightarrow> unit result \<times> world" where
  "updateSavedServer e u index w =
     (case getDomain index w of
        (Ok s, w0) \<Rightarrow>
          (let ic = ignoreCerts s
           in case checkDomain e u ic True w0 of
                (Resolved newServerConf, w1) \<Rightarrow>
                  (case saveServerIcon e (Conf newServerConf) ic w1 of
                     (Resolved localIconUrl, w2) \<Rightarrow>
                       (case updateDomain index (newServerConf\<lparr>icon := localIconUrl\<rparr>) w2 of
                          (Ok x, w3) \<Rightarrow> (Ok (), reloadDB w3)
                        | (r, w3) \<Rightarrow> (r, w3))
                   | (other, w2) \<Rightarrow> (Ok (), w2))
              | (other, w1) \<Rightarrow> (Ok (), w1))
      | (Throws x, w0) \<Rightarrow> (Throws x, w0)
      | (Sparse, w0) \<Rightarrow> (Sparse, w0))"

text \<open>The collection as \<open>getDomains\<close> reads it from a store.\<close>

definition stored_domains :: "world \<Rightarrow> server_conf list" where
  "stored_domains w = fst (getDomains w)"

subsection \<open>Example inputs\<close>

text \<open>
  A store that holds the given records, and collaborators for the examples: a network
  that answers every settings request and every icon request in one fixed way, a user
  who presses one fixed button of the trust dialog, and sample message texts.
\<close>

definition registry :: "server_conf list \<Rightarrow> world" where
  "registry ds = \<lparr>db = Doc (Some ds), dirs = {}, files = Map.empty, trace = []\<rparr>"

definition example_messages :: "(string \<Rightarrow> bool \<Rightarrow> reply) \<Rightarrow> (string \<Rightarrow> bool \<Rightarrow> icon_reply) \<Rightarrow> nat \<Rightarrow> env" where
  "example_messages net iconNet button =
     \<lparr>userData = ''/home/u/.config/Zulip'',
      settingsRequest = net,
      iconRequest = iconNet,
      showMessageBox = (\<lambda>msg. button),
      noOrgsError = (\<lambda>d. d @ '' does not have any organizations added.''),
      invalidZulipServerError = (\<lambda>d. d @ '' does not appear to be a valid Zulip server.''),
      certErrorMessage = (\<lambda>d error. ''Do you trust certificate from '' @ d @ ''?'')\<rparr>"

definition offline :: env where
  "offline = example_messages (\<lambda>u ic. NetError ''getaddrinfo ENOTFOUND'') (\<lambda>u ic. RequestError) 1"

definition not_found :: env where
  "not_found = example_messages (\<lambda>u ic. Reply 404 Malformed) (\<lambda>u ic. RequestError) 1"

definition unanswered :: env where
  "unanswered =
     example_messages (\<lambda>u ic. NetError ''getaddrinfo ENOTFOUND'') (\<lambda>u ic. NoAnswer) 1"

definition example_settings :: settings where
  "example_settings =
     \<lparr>realm_icon = Some ''/icon.png'',
      realm_uri = ''https://chat.example.com'',
      realm_name = ''Example <Org>''\<rparr>"

definition online :: env where
  "online = example_messages (\<lambda>u ic. Reply 200 (Json example_settings)) (\<lambda>u ic. ResponseFinish ''PNG'') 1"

definition dev_server :: server_conf where
  "dev_server = \<lparr>icon = ''/home/u/.config/Zulip/server-icons/1.png'', url = ''https://chat.zulipdev.org'',
     alias_name = ''Dev'', ignoreCerts = False\<rparr>"

definition example_server :: server_conf where
  "example_server = \<lparr>icon = ''/home/u/.config/Zulip/server-icons/2.png'', url = ''https://chat.example.com'',
     alias_name = ''Example'', ignoreCerts = False\<rparr>"

section \<open>Properties\<close>

subsection \<open>Evaluation of the decimal rendering\<close>

lemma decimal_small: "n < 10 \<Longrightarrow> decimal n = [digit_char n]"
  by (simp add: decimal.simps)

lemma decimal_large: "10 \<le> n \<Longrightarrow> decimal n = decimal (n div 10) @ [digit_char (n mod 10)]"
  by (subst decimal.simps) simp

lemmas decimal_eval = decimal_small decimal_large digit_char_def

subsection \<open>String search\<close>

text \<open>\<open>indexOf\<close> finds a prefix at position 0 and finds a substring wherever there is one.\<close>

lemma indexOf_from_range: "indexOf_from s t k = - 1 \<or> k \<le> indexOf_from s t k"
proof (induction s arbitrary: k)
  case Nil
  show ?case by simp
next
  case (Cons c cs)
  from Cons [of "k + 1"] show ?case by auto
qed

lemma indexOf_from_start: "0 \<le> k \<Longrightarrow> indexOf_from s t k = k \<longleftrightarrow> prefix t s"
proof (cases s)
  case Nil
  then show ?thesis if "0 \<le> k" using that by auto
next
  case (Cons c cs)
  show ?thesis if k: "0 \<le> k"
  proof (cases "prefix t (c # cs)")
    case True
    then show ?thesis by (simp add: Cons)
  next
    case False
    from indexOf_from_range [of cs t "k + 1"]
    have "indexOf_from cs t (k + 1) \<noteq> k" using k by auto
    with False show ?thesis by (simp add: Cons)
  qed
qed

lemma indexOf_from_found: "0 \<le> k \<Longrightarrow> 0 \<le> indexOf_from s t k \<longleftrightarrow> sublist t s"
proof (induction s arbitrary: k)
  case Nil
  then show ?case by auto
next
  case (Cons c cs)
  then show ?case by (auto simp: sublist_Cons_right)
qed

lemma indexOf_start: "indexOf s t = 0 \<longleftrightarrow> prefix t s"
  by (simp add: indexOf_def indexOf_from_start)

lemma indexOf_found: "0 \<le> indexOf s t \<longleftrightarrow> sublist t s"
  by (simp add: indexOf_def indexOf_from_found)

lemma includes_js_sublist: "includes_js s t \<longleftrightarrow> sublist t s"
  using indexOf_from_range [of s t 0] indexOf_found [of s t]
  by (auto simp: includes_js_def indexOf_def)

subsection \<open>The URL normaliser\<close>

text \<open>
  Claim C5, as the code has it: \<open>formatUrl\<close> returns an input that begins with
  \<open>http://\<close> or \<open>https://\<close> unchanged; to an input that does not begin with \<open>http\<close> it
  prepends \<open>http://\<close> when the input contains \<open>localhost:\<close>, whether or not a port
  follows, and \<open>https://\<close> in all remaining cases. It is a total function.
\<close>

theorem formatUrl_cases:
  "(prefix ''http://'' d \<or> prefix ''https://'' d \<longrightarrow> formatUrl d = d) \<and>
   (\<not> prefix ''http'' d \<longrightarrow>
      formatUrl d = (if sublist ''localhost:'' d then ''http://'' @ d else ''https://'' @ d))"
proof -
  have "prefix ''http'' d" if "prefix ''http://'' d \<or> prefix ''https://'' d"
    using that by (auto simp: prefix_def)
  then show ?thesis
    by (auto simp: formatUrl_def indexOf_start indexOf_found)
qed

theorem formatUrl_cases_witness:
  "formatUrl ''localhost:9991'' = ''http://localhost:9991'' \<and>
   formatUrl ''chat.example.com'' = ''https://chat.example.com'' \<and>
   formatUrl ''http://chat.example.com'' = ''http://chat.example.com''"
  using formatUrl_cases [of "''localhost:9991''"] formatUrl_cases [of "''chat.example.com''"]
    formatUrl_cases [of "''http://chat.example.com''"]
  by (simp add: sublist_Cons_right)

text \<open>
  The input \<open>localhost:\<close>, with no port, is given the scheme \<open>http://\<close>. The input
  \<open>httpbin.org\<close> begins with the letters \<open>http\<close> and is returned as it is, without any
  scheme.
\<close>

theorem formatUrl_scheme_counterexample:
  "formatUrl ''localhost:'' = ''http://localhost:'' \<and>
   spec_normalize ''localhost:'' = ''https://localhost:'' \<and>
   formatUrl ''httpbin.org'' = ''httpbin.org'' \<and>
   spec_normalize ''httpbin.org'' = ''https://httpbin.org''"
  by (simp add: formatUrl_def indexOf_def spec_normalize_def spec_has_http_scheme_def
      spec_localhost_port_def sublist_Cons_right)

subsection \<open>The icon file name\<close>

text \<open>
  The XOR of the source yields a signed 32-bit integer, so every product \<open>hash * 33\<close> of
  the loop stays far below \<open>2 ^ 53\<close>, and the loop computes, modulo \<open>2 ^ 32\<close>, the
  rolling hash of the specification.
\<close>

lemma bitxor_js_word: "(word_of_int (bitxor_js a b) :: 32 word) = word_of_int a XOR word_of_int b"
  by (simp add: bitxor_js_def)

lemma bitxor_js_int32: "- (2 ^ 31) \<le> bitxor_js a b \<and> bitxor_js a b < 2 ^ 31"
  using sint_range_size [of "(word_of_int a :: 32 word) XOR word_of_int b"]
  by (simp add: bitxor_js_def word_size)

lemma hash_step_exact: "\<bar>bitxor_js a b * 33\<bar> < 2 ^ 53"
proof -
  from bitxor_js_int32 [of a b]
  have "- 2147483648 \<le> bitxor_js a b" and "bitxor_js a b < 2147483648" by simp_all
  then have "\<bar>bitxor_js a b * 33\<bar> < 9007199254740992" by linarith
  then show ?thesis by simp
qed

lemma hash_loop_word:
  "n \<le> length u \<Longrightarrow>
   (word_of_int (hash_loop u n h) :: 32 word) =
     foldr (\<lambda>c h. (h * 33) XOR of_nat (of_char c)) (take n u) (word_of_int h)"
proof (induction n arbitrary: h)
  case 0
  show ?case by simp
next
  case (Suc n)
  then have n: "n < length u" by simp
  have "(word_of_int (bitxor_js (h * 33) (charCodeAt u n)) :: 32 word) =
        (word_of_int h * 33) XOR of_nat (of_char (u ! n))"
    by (simp add: bitxor_js_word charCodeAt_def)
  with Suc.IH [of "bitxor_js (h * 33) (charCodeAt u n)"] n show ?case
    by (simp add: take_Suc_conv_app_nth)
qed

lemma generateFilePath_hash: "ushr0 (hash_loop u (length u) 5381) = unat (spec_hash u)"
  using hash_loop_word [of "length u" u 5381] by (simp add: ushr0_def spec_hash_def)

lemmas hash_eval = bitxor_js_def charCodeAt_def ushr0_def

lemmas extname_eval = extname_def last_segment_def split_query_head_def

text \<open>
  What the code computes: the decimal rendering of the unsigned 32-bit rolling hash of
  the URL (seed 5381, multiply by 33 and XOR the character, from the last character to
  the first), followed by \<open>path.extname\<close> of the whole URL cut at its first question
  mark. Being a function of the URL alone, the name is the same on every call with that
  URL.
\<close>

lemma generateFileName_scheme:
  "generateFileName u =
     decimal (unat (spec_hash u)) @ takeWhile (\<lambda>c. c \<noteq> CHR ''?'') (extname u)"
  by (simp add: generateFileName_def generateFilePath_hash split_query_head_def)

lemma generateFileName_example:
  "generateFileName ''https://chat.example.com/icon.png?version=3'' = ''530188283.png''"
  using generateFileName_scheme [of "''https://chat.example.com/icon.png?version=3''"]
  by (simp add: spec_hash_def extname_eval decimal_eval)

text \<open>On a URL without a query string the name is the one the specification describes.\<close>

lemma set_last_segment: "set (last_segment p) \<subseteq> set p"
proof -
  have "set (last_segment p) \<subseteq> set (dropWhile (\<lambda>c. c = CHR ''/'') (rev p))"
    unfolding last_segment_def set_rev by (auto dest: set_takeWhileD)
  also have "\<dots> \<subseteq> set p"
    by (auto dest: set_dropWhileD)
  finally show ?thesis .
qed

lemma set_extname: "set (extname p) \<subseteq> set p"
proof -
  have "set (extname p) \<subseteq> set (last_segment p)"
    by (auto simp: extname_def Let_def dest: in_set_dropD)
  with set_last_segment [of p] show ?thesis by blast
qed

lemma generateFileName_no_query:
  assumes "CHR ''?'' \<notin> set u"
  shows "generateFileName u = spec_fileName u"
proof -
  from assms set_extname [of u] have "CHR ''?'' \<notin> set (extname u)" by blast
  then have e1: "takeWhile (\<lambda>c. c \<noteq> CHR ''?'') (extname u) = extname u"
    by (intro takeWhile_eq_all_conv [THEN iffD2]) auto
  from assms have e2: "takeWhile (\<lambda>c. c \<noteq> CHR ''?'') u = u"
    by (intro takeWhile_eq_all_conv [THEN iffD2]) auto
  show ?thesis
    by (simp only: generateFileName_scheme spec_fileName_def split_query_head_def e1 e2)
qed

text \<open>
  Claim C4: the file name is the unsigned 32-bit rolling hash of the URL followed by the
  URL's file extension, the query string being stripped before the extension is
  extracted. The code extracts the extension first and cuts at the question mark
  afterwards, so a dot inside the query string moves the extension: for
  \<open>https://a.com/icon.png?v=1.2\<close> the code names the file \<open>1694083856.2\<close>, where the
  specified name is \<open>1694083856.png\<close>.
\<close>

theorem generateFileName_query_counterexample:
  "generateFileName ''https://a.com/icon.png?v=1.2'' = ''1694083856.2'' \<and>
   spec_fileName ''https://a.com/icon.png?v=1.2'' = ''1694083856.png''"
  by (simp add: generateFileName_def spec_fileName_def spec_hash_def hash_eval extname_eval decimal_eval)

subsection \<open>Basic facts about the world\<close>

lemma emit_simps [simp]:
  "db (emit ev w) = db w" "dirs (emit ev w) = dirs w" "files (emit ev w) = files w"
  "trace (emit ev w) = trace w @ [ev]"
  by (simp_all add: emit_def)

lemma reloadDB_Doc [simp]: "db w = Doc x \<Longrightarrow> reloadDB w = w"
  by (simp add: reloadDB_def)

lemma reloadDB_Corrupt: "db w = Corrupt \<Longrightarrow> reloadDB w = emit ErrorBox (w\<lparr>db := Doc None\<rparr>)"
  by (simp add: reloadDB_def)

lemma stored_domains_eq: "stored_domains w = (case db w of Doc (Some ds) \<Rightarrow> ds | _ \<Rightarrow> [])"
  by (cases "db w") (simp_all add: stored_domains_def getDomains_def reloadDB_Corrupt)

lemma stored_domains_reloadDB [simp]: "stored_domains (reloadDB w) = stored_domains w"
  by (cases "db w") (simp_all add: stored_domains_eq reloadDB_Corrupt)

lemma getDomains_eq: "getDomains w = (stored_domains w, reloadDB w)"
  by (cases "db w") (simp_all add: stored_domains_eq getDomains_def reloadDB_Corrupt)

lemma url_among_iff: "url_among servers d \<longleftrightarrow> d \<in> url ` set servers"
  by (induction servers) auto

lemma duplicateDomain_eq:
  "duplicateDomain d w = (formatUrl d \<in> url ` set (stored_domains w), reloadDB w)"
  by (simp add: duplicateDomain_def getDomains_eq url_among_iff)

subsection \<open>Index compaction\<close>

lemma splice1_length: "k < length ds \<Longrightarrow> length (splice1 ds k) = length ds - 1"
  by (simp add: splice1_def)

lemma splice1_before: "j < k \<Longrightarrow> k < length ds \<Longrightarrow> splice1 ds k ! j = ds ! j"
  by (simp add: splice1_def nth_append)

lemma splice1_after:
  assumes "k < j" and "j < length ds"
  shows "splice1 ds k ! (j - 1) = ds ! j"
proof -
  from assms have len: "length (take k ds) = k" by simp
  from assms have "\<not> j - 1 < k" by arith
  with len have "splice1 ds k ! (j - 1) = drop (Suc k) ds ! (j - 1 - k)"
    by (simp add: splice1_def nth_append)
  also from assms have "\<dots> = ds ! (Suc k + (j - 1 - k))" by simp
  also from assms have "Suc k + (j - 1 - k) = j" by arith
  finally show ?thesis .
qed

text \<open>
  Claim C8: in a collection of \<open>N\<close> records, \<open>removeDomain k\<close> with \<open>k < N\<close> leaves
  \<open>N - 1\<close> records; every record formerly at an index \<open>j > k\<close> is at \<open>j - 1\<close>, and the
  records below \<open>k\<close> stay where they were, so the indices remain dense.
\<close>

theorem removeDomain_compacts:
  assumes "db w = Doc (Some ds)" and "k < length ds"
  shows "fst (removeDomain k w) = Ok () \<and>
         length (stored_domains (snd (removeDomain k w))) = length ds - 1 \<and>
         (\<forall>j. k < j \<and> j < length ds \<longrightarrow> stored_domains (snd (removeDomain k w)) ! (j - 1) = ds ! j) \<and>
         (\<forall>j. j < k \<longrightarrow> stored_domains (snd (removeDomain k w)) ! j = ds ! j)"
proof -
  from assms have r: "fst (removeDomain k w) = Ok ()"
    and sd: "stored_domains (snd (removeDomain k w)) = splice1 ds k"
    by (simp_all add: removeDomain_def stored_domains_eq)
  from assms(2) show ?thesis
    unfolding sd using r by (blast intro: splice1_length splice1_before splice1_after)
qed

theorem removeDomain_compacts_witness:
  "fst (removeDomain 0 (registry [dev_server, example_server])) = Ok () \<and>
   stored_domains (snd (removeDomain 0 (registry [dev_server, example_server]))) = [example_server]"
proof -
  let ?w = "registry [dev_server, example_server]"
  have a: "db ?w = Doc (Some [dev_server, example_server])" by (simp add: registry_def)
  have b: "0 < length [dev_server, example_server]" by simp
  note t = removeDomain_compacts [OF a b]
  from t have r: "fst (removeDomain 0 ?w) = Ok ()"
    and l: "length (stored_domains (snd (removeDomain 0 ?w))) = 1"
    by simp_all
  from t have "0 < (1::nat) \<and> (1::nat) < length [dev_server, example_server] \<longrightarrow>
      stored_domains (snd (removeDomain 0 ?w)) ! (1 - 1) = [dev_server, example_server] ! 1"
    by blast
  then have n: "stored_domains (snd (removeDomain 0 ?w)) ! 0 = example_server"
    by simp
  from l obtain x where x: "stored_domains (snd (removeDomain 0 ?w)) = [x]"
    by (cases "stored_domains (snd (removeDomain 0 ?w))") auto
  with n have "x = example_server" by simp
  with r x show ?thesis by simp
qed

subsection \<open>The server verifier\<close>

lemma getServerSettings_world:
  "snd (getServerSettings e d ic w) = emit (HttpRequest (d @ ''/api/v1/server_settings'') ic) w"
  by (simp add: getServerSettings_def Let_def)

lemma getServerSettings_outcome:
  "fst (getServerSettings e d ic w) = fst (getServerSettings e d ic w')"
  by (simp add: getServerSettings_def Let_def)

lemma getServerSettings_pair:
  "getServerSettings e d ic w =
     (fst (getServerSettings e d ic w), emit (HttpRequest (d @ ''/api/v1/server_settings'') ic) w)"
  by (simp add: prod_eq_iff getServerSettings_world)

text \<open>An error of the transport reaches \<open>checkDomain\<close> as \<open>undefined\<close>, whatever its text.\<close>

lemma getServerSettings_transport_error:
  "settingsRequest e (d @ ''/api/v1/server_settings'') ic = NetError text \<Longrightarrow>
   fst (getServerSettings e d ic w) = Rejected Undefined"
  by (simp add: getServerSettings_def Let_def)

text \<open>The escaped text has none of the characters that open or close markup or an attribute.\<close>

lemma escape_char_lt: "CHR ''<'' \<notin> set (escape_char c)"
  by (simp only: escape_char.simps split: if_splits) auto

lemma escape_char_gt: "CHR ''>'' \<notin> set (escape_char c)"
  by (simp only: escape_char.simps split: if_splits) auto

lemma escape_char_dquote: "CHR 0x22 \<notin> set (escape_char c)"
  by (simp only: escape_char.simps split: if_splits) auto

lemma escape_char_squote: "CHR 0x27 \<notin> set (escape_char c)"
  by (simp only: escape_char.simps split: if_splits) auto

lemma escape_safe:
  "CHR ''<'' \<notin> set (escape s) \<and> CHR ''>'' \<notin> set (escape s) \<and>
   CHR 0x22 \<notin> set (escape s) \<and> CHR 0x27 \<notin> set (escape s)"
  unfolding escape_def set_concat set_map
  using escape_char_lt escape_char_gt escape_char_dquote escape_char_squote by blast

text \<open>
  Claim C7: when the settings endpoint answers with status 200 and a JSON body whose
  \<open>realm_icon\<close> is present and non-empty, \<open>getServerSettings\<close> resolves with the record
  whose \<open>url\<close> is \<open>realm_uri\<close>, whose alias is the HTML-escaped \<open>realm_name\<close>, whose icon
  is \<open>realm_icon\<close>, prefixed with \<open>realm_uri\<close> when it begins with a slash, and whose
  \<open>ignoreCerts\<close> is the flag passed in.
\<close>

theorem getServerSettings_record:
  assumes "settingsRequest e (d @ ''/api/v1/server_settings'') ic = Reply 200 (Json data)"
    and "realm_icon data = Some i" and "i \<noteq> []"
  shows "fst (getServerSettings e d ic w) =
           Resolved \<lparr>icon = (if prefix ''/'' i then realm_uri data @ i else i),
                     url = realm_uri data,
                     alias_name = escape (realm_name data),
                     ignoreCerts = ic\<rparr>"
  using assms by (simp add: getServerSettings_def Let_def startsWith_def)

theorem getServerSettings_record_witness:
  "fst (getServerSettings online ''https://chat.example.com'' False (registry [])) =
     Resolved \<lparr>icon = ''https://chat.example.com/icon.png'',
               url = ''https://chat.example.com'',
               alias_name = ''Example &lt;Org&gt;'',
               ignoreCerts = False\<rparr>"
proof -
  have a: "settingsRequest online (''https://chat.example.com'' @ ''/api/v1/server_settings'') False =
           Reply 200 (Json example_settings)"
    by (simp add: online_def example_messages_def)
  have b: "realm_icon example_settings = Some ''/icon.png''"
    by (simp add: example_settings_def)
  have c: "''/icon.png'' \<noteq> []" by simp
  from getServerSettings_record [OF a b c, of "registry []"] show ?thesis
    by (simp add: example_settings_def escape_def)
qed

lemma stored_domains_emit [simp]: "stored_domains (emit ev w) = stored_domains w"
  by (simp add: stored_domains_eq)

lemma checkDomain_verify:
  assumes "silent \<or> formatUrl d0 \<notin> url ` set (stored_domains w)"
  shows "checkDomain e d0 ic silent w =
     (let d = formatUrl d0;
          w1 = emit (HttpRequest (d @ ''/api/v1/server_settings'') ic) (if silent then w else reloadDB w)
      in case fst (getServerSettings e d ic w) of
           Resolved r \<Rightarrow> (Resolved r, w1)
         | Pending \<Rightarrow> (Pending, w1)
         | Rejected err \<Rightarrow>
             if whitelisted d \<or> certsError (or_empty err)
             then checkCertError e d
                    \<lparr>icon = defaultIconUrl, url = d, alias_name = d, ignoreCerts = ic\<rparr>
                    (or_empty err) silent w1
             else (Rejected (Str (invalidZulipServerError e d)), w1))"
proof -
  let ?d = "formatUrl d0"
  let ?w0 = "if silent then w else reloadDB w"
  have dup: "(if \<not> silent then duplicateDomain d0 w else (False, w)) = (False, ?w0)"
    using assms by (auto simp: duplicateDomain_eq)
  have g: "getServerSettings e ?d ic ?w0 =
             (fst (getServerSettings e ?d ic w), emit (HttpRequest (?d @ ''/api/v1/server_settings'') ic) ?w0)"
    using getServerSettings_outcome [of e ?d ic ?w0 w]
    by (simp add: prod_eq_iff getServerSettings_world)
  show ?thesis
    unfolding checkDomain_def dup
    by (cases "fst (getServerSettings e ?d ic w)") (simp_all add: g Let_def)
qed

lemma checkDomain_resolves:
  assumes "silent \<or> formatUrl d0 \<notin> url ` set (stored_domains w)"
    and "fst (getServerSettings e (formatUrl d0) ic w) = Resolved r"
  shows "fst (checkDomain e d0 ic silent w) = Resolved r"
  using assms by (simp add: checkDomain_verify Let_def)

text \<open>
  An error of the transport, a certificate error included, carries no text by the time
  \<open>checkDomain\<close> classifies it: outside the development domain it is reported as an
  invalid server, in silent mode too, and the trust dialog is not shown.
\<close>

lemma certsError_empty: "\<not> certsError (Str [])"
  by (simp add: certsError_def includes_js_def indexOf_def)

lemma checkDomain_transport_error:
  assumes "silent \<or> formatUrl d0 \<notin> url ` set (stored_domains w)"
    and "settingsRequest e (formatUrl d0 @ ''/api/v1/server_settings'') ic = NetError text"
    and "\<not> whitelisted (formatUrl d0)"
  shows "fst (checkDomain e d0 ic silent w) = Rejected (Str (invalidZulipServerError e (formatUrl d0)))"
  using assms getServerSettings_transport_error [of e "formatUrl d0" ic "text" w]
  by (simp add: checkDomain_verify certsError_empty Let_def)

lemma stored_nonempty_Doc: "x \<in> set (stored_domains w) \<Longrightarrow> \<exists>ds. db w = Doc (Some ds)"
  by (cases "db w") (auto simp: stored_domains_eq split: option.splits)

text \<open>
  Claim C6: when \<open>checkDomain\<close> is called with \<open>silent = false\<close> and the normalised URL
  equals, as a string, the \<open>url\<close> of a stored record, it rejects with the error
  \<open>This server has been added.\<close> and leaves the world as it was: no request is issued,
  nothing is asked, and the store is not written.
\<close>

theorem checkDomain_duplicate:
  assumes "formatUrl d0 \<in> url ` set (stored_domains w)"
  shows "checkDomain e d0 ic False w = (Rejected (ErrorObj ''This server has been added.''), w)"
proof -
  from assms obtain ds where "db w = Doc (Some ds)"
    using stored_nonempty_Doc by blast
  then have "reloadDB w = w" by simp
  with assms show ?thesis
    by (simp add: checkDomain_def duplicateDomain_eq)
qed

theorem checkDomain_duplicate_witness:
  "checkDomain online ''chat.example.com'' False False (registry [example_server]) =
     (Rejected (ErrorObj ''This server has been added.''), registry [example_server])"
proof -
  have "formatUrl ''chat.example.com'' \<in> url ` set (stored_domains (registry [example_server]))"
    by (simp add: formatUrl_def indexOf_def stored_domains_eq registry_def example_server_def)
  from checkDomain_duplicate [OF this] show ?thesis .
qed

text \<open>A trailing slash makes a different URL: the same server is verified again.\<close>

lemma duplicate_exact_match_example:
  "fst (duplicateDomain ''https://chat.example.com/'' (registry [example_server])) = False"
  by (simp add: duplicateDomain_eq formatUrl_def indexOf_def stored_domains_eq registry_def
      example_server_def)

text \<open>
  Claim C9: when \<open>checkDomain\<close> runs with \<open>silent = false\<close> on a URL that is not yet
  registered, the settings request is rejected with an error that the code treats as a
  certificate error (its text contains \<open>certificate\<close>, or the URL contains
  \<open>zulipdev.org\<close>), and the user presses a button other than the first one in the trust
  dialog, then \<open>checkDomain\<close> rejects with \<open>Untrusted certificate.\<close> and the stored
  collection is what it was, in particular of the same length.
\<close>

theorem checkDomain_decline:
  assumes "formatUrl d0 \<notin> url ` set (stored_domains w)"
    and "fst (getServerSettings e (formatUrl d0) ic w) = Rejected err"
    and "whitelisted (formatUrl d0) \<or> certsError (or_empty err)"
    and "showMessageBox e (certErrorMessage e (formatUrl d0) (or_empty err)) \<noteq> 0"
  shows "fst (checkDomain e d0 ic False w) = Rejected (ErrorObj ''Untrusted certificate.'') \<and>
         stored_domains (snd (checkDomain e d0 ic False w)) = stored_domains w \<and>
         length (stored_domains (snd (checkDomain e d0 ic False w))) = length (stored_domains w) \<and>
         db (snd (checkDomain e d0 ic False w)) = db (reloadDB w)"
proof -
  let ?d = "formatUrl d0"
  let ?w1 = "emit (HttpRequest (?d @ ''/api/v1/server_settings'') ic) (reloadDB w)"
  from assms have
    "checkDomain e d0 ic False w =
       (Rejected (ErrorObj ''Untrusted certificate.''),
        emit (MessageBox (certErrorMessage e ?d (or_empty err))) ?w1)"
    by (simp add: checkDomain_verify checkCertError_def Let_def)
  then show ?thesis by simp
qed

theorem checkDomain_decline_witness:
  "fst (checkDomain offline ''chat.zulipdev.org'' False False (registry [example_server])) =
     Rejected (ErrorObj ''Untrusted certificate.'') \<and>
   stored_domains (snd (checkDomain offline ''chat.zulipdev.org'' False False (registry [example_server]))) =
     [example_server]"
proof -
  let ?w = "registry [example_server]"
  have f: "formatUrl ''chat.zulipdev.org'' = ''https://chat.zulipdev.org''"
    by (simp add: formatUrl_def indexOf_def)
  have a: "formatUrl ''chat.zulipdev.org'' \<notin> url ` set (stored_domains ?w)"
    by (simp add: f stored_domains_eq registry_def example_server_def)
  have b: "fst (getServerSettings offline (formatUrl ''chat.zulipdev.org'') False ?w) = Rejected Undefined"
    by (simp add: getServerSettings_def offline_def example_messages_def)
  have c: "whitelisted (formatUrl ''chat.zulipdev.org'') \<or> certsError (or_empty Undefined)"
    by (simp add: f whitelisted_def indexOf_def)
  have d: "showMessageBox offline
      (certErrorMessage offline (formatUrl ''chat.zulipdev.org'') (or_empty Undefined)) \<noteq> 0"
    by (simp add: offline_def example_messages_def)
  from checkDomain_decline [OF a b c d] show ?thesis
    by (simp add: stored_domains_eq registry_def)
qed

text \<open>
  Claim C2, as the code has it: with \<open>silent = true\<close>, \<open>checkDomain\<close> issues the one
  settings request and has no other effect (no dialog, no access to the store). It
  resolves with the server's record when the request succeeds; when the request is
  rejected it resolves with the placeholder record if the error text contains
  \<open>certificate\<close> or the URL contains \<open>zulipdev.org\<close>, and otherwise it rejects with the
  invalid-server message. It stays pending when the body is not JSON.
\<close>

theorem checkDomain_silent:
  "checkDomain e d0 ic True w =
     (case fst (getServerSettings e (formatUrl d0) ic w) of
        Resolved r \<Rightarrow> Resolved r
      | Pending \<Rightarrow> Pending
      | Rejected err \<Rightarrow>
          if whitelisted (formatUrl d0) \<or> certsError (or_empty err)
          then Resolved \<lparr>icon = defaultIconUrl, url = formatUrl d0, alias_name = formatUrl d0,
                          ignoreCerts = ic\<rparr>
          else Rejected (Str (invalidZulipServerError e (formatUrl d0))),
      emit (HttpRequest (formatUrl d0 @ ''/api/v1/server_settings'') ic) w)"
  by (cases "fst (getServerSettings e (formatUrl d0) ic w)")
     (simp_all add: checkDomain_verify checkCertError_def Let_def)

lemma offline_settings: "fst (getServerSettings offline d ic w) = Rejected Undefined"
  by (simp add: getServerSettings_def offline_def example_messages_def)

theorem checkDomain_silent_witness:
  "checkDomain offline ''chat.zulipdev.org'' True True (registry []) =
     (Resolved \<lparr>icon = ''../renderer/img/icon.png'', url = ''https://chat.zulipdev.org'',
                alias_name = ''https://chat.zulipdev.org'', ignoreCerts = True\<rparr>,
      \<lparr>db = Doc (Some []), dirs = {}, files = Map.empty,
        trace = [HttpRequest ''https://chat.zulipdev.org/api/v1/server_settings'' True]\<rparr>)"
proof -
  have f: "formatUrl ''chat.zulipdev.org'' = ''https://chat.zulipdev.org''"
    by (simp add: formatUrl_def indexOf_def)
  have wl: "whitelisted ''https://chat.zulipdev.org''"
    by (simp add: whitelisted_def indexOf_def)
  from checkDomain_silent [of offline "''chat.zulipdev.org''" True "registry []"] show ?thesis
    by (simp add: f wl offline_settings defaultIconUrl_def registry_def emit_def)
qed

lemma not_found_settings: "fst (getServerSettings not_found d ic w) = Rejected (ResponseObj 404)"
  by (simp add: getServerSettings_def not_found_def example_messages_def)

text \<open>
  A silent check of a server that answers the settings request with status 404 rejects.
\<close>

theorem checkDomain_silent_counterexample:
  "fst (checkDomain not_found ''chat.example.com'' False True (registry [example_server])) =
     Rejected (Str ''https://chat.example.com does not appear to be a valid Zulip server.'')"
proof -
  have f: "formatUrl ''chat.example.com'' = ''https://chat.example.com''"
    by (simp add: formatUrl_def indexOf_def)
  have w: "\<not> whitelisted ''https://chat.example.com''"
    by (simp add: whitelisted_def indexOf_def)
  have c: "\<not> certsError (ResponseObj 404)"
    by (simp add: certsError_def includes_js_def indexOf_def)
  have m: "invalidZulipServerError not_found ''https://chat.example.com'' =
      ''https://chat.example.com does not appear to be a valid Zulip server.''"
    by (simp add: not_found_def example_messages_def)
  show ?thesis
    by (simp add: checkDomain_verify f not_found_settings w c m Let_def)
qed

subsection \<open>The icon fetcher\<close>

lemma generateFilePath_name:
  "fst (generateFilePath e (Some u) w) = Inr (userData e @ ''/server-icons/'' @ generateFileName u)"
  by (simp add: generateFilePath_def Let_def)

lemma generateFilePath_world:
  "snd (generateFilePath e (Some u) w) =
     (if userData e @ ''/server-icons'' \<in> dirs w then w
      else (emit (MkdirSync (userData e @ ''/server-icons'')) w)
             \<lparr>dirs := insert (userData e @ ''/server-icons'') (dirs w)\<rparr>)"
  by (simp add: generateFilePath_def Let_def)

lemma generateFilePath_db [simp]: "db (snd (generateFilePath e url_arg w)) = db w"
  by (cases url_arg) (simp_all add: generateFilePath_def Let_def)

lemma generateFilePath_dirs:
  "dirs (snd (generateFilePath e (Some u) w)) = insert (userData e @ ''/server-icons'') (dirs w)"
  by (auto simp: generateFilePath_world)

lemma generateFilePath_trace:
  "trace (snd (generateFilePath e (Some u) w)) =
     trace w @ (if userData e @ ''/server-icons'' \<in> dirs w then []
                else [MkdirSync (userData e @ ''/server-icons'')])"
  by (simp add: generateFilePath_world)

lemma createWriteStream_simps [simp]:
  "db (createWriteStream p w) = db w"
  "dirs (createWriteStream p w) = dirs w"
  "files (createWriteStream p w) = (files w)(p \<mapsto> [])"
  "trace (createWriteStream p w) = trace w @ [CreateWriteStream p]"
  by (simp_all add: createWriteStream_def)

lemma saveServerIcon_db [simp]: "db (snd (saveServerIcon e server ic w)) = db w"
proof (cases "icon_of server")
  case None
  then show ?thesis
    by (simp add: saveServerIcon_def generateFilePath_def)
next
  case (Some u)
  then show ?thesis
    by (simp add: saveServerIcon_def generateFilePath_def Let_def split: icon_reply.splits)
qed

lemma saveServerIcon_default:
  "icon server = defaultIconUrl \<Longrightarrow>
   saveServerIcon e (Conf server) ic w =
     (Resolved defaultIconUrl,
      createWriteStream (userData e @ ''/server-icons/'' @ generateFileName defaultIconUrl)
        (snd (generateFilePath e (Some defaultIconUrl) w)))"
  by (simp add: saveServerIcon_def generateFilePath_def Let_def)

text \<open>
  When the argument is a record and the download is answered, the promise resolves,
  either with the hash-named path inside the \<open>server-icons\<close> directory or with the
  default icon.
\<close>

lemma saveServerIcon_answered:
  assumes "iconRequest e (icon server) ic \<noteq> NoAnswer"
  shows "\<exists>p. fst (saveServerIcon e (Conf server) ic w) = Resolved p \<and>
           (p = userData e @ ''/server-icons/'' @ generateFileName (icon server) \<or> p = defaultIconUrl)"
  using assms
  by (simp add: saveServerIcon_def generateFilePath_def Let_def split: icon_reply.splits)

text \<open>
  Claim C3: for any input URL the promise of \<open>saveServerIcon\<close> resolves and never
  rejects, as the comment in the source says (\<open>The save will always succeed\<close>). The code
  does not keep this. \<open>generateFilePath\<close> runs in the promise executor outside the \<open>try\<close>
  block: called with the icon URL itself as its argument, as the \<open>update-realm-icon\<close>
  handler does, \<open>server.icon\<close> is \<open>undefined\<close>, \<open>path.extname\<close> throws and the promise
  rejects. And when the download is never answered no handler runs: the promise stays
  pending.
\<close>

theorem saveServerIcon_rejects:
  "fst (saveServerIcon online (PlainString ''https://chat.example.com/icon.png'') False (registry [])) =
     Rejected (Thrown TypeError) \<and>
   fst (saveServerIcon unanswered
          (Conf (example_server\<lparr>icon := ''https://chat.example.com/icon.png''\<rparr>)) False (registry [])) =
     Pending"
  by (simp add: saveServerIcon_def generateFilePath_def unanswered_def example_messages_def
      defaultIconUrl_def Let_def)




subsection \<open>Background refresh\<close>

lemma getDomain_stored:
  "db w = Doc (Some ds) \<Longrightarrow> index < length ds \<Longrightarrow> getDomain index w = (Ok (ds ! index), w)"
  by (simp add: getDomain_def)

lemma updateDomain_stored:
  "db w = Doc (Some ds) \<Longrightarrow> index < length ds \<Longrightarrow>
   updateDomain index server w = (Ok (), w\<lparr>db := Doc (Some (ds[index := server]))\<rparr>)"
  by (simp add: updateDomain_def push_index_def)

lemma checkDomain_silent_db [simp]: "db (snd (checkDomain e u ic True w)) = db w"
  by (cases "fst (getServerSettings e (formatUrl u) ic w)")
     (simp_all add: checkDomain_verify checkCertError_def Let_def)

text \<open>
  When the silent check does not resolve, the refresh stops there and the store keeps
  what it held.
\<close>

lemma updateSavedServer_not_resolved:
  assumes "db w = Doc (Some ds)" and "index < length ds"
    and "\<And>r. fst (checkDomain e u (ignoreCerts (ds ! index)) True w) \<noteq> Resolved r"
  shows "fst (updateSavedServer e u index w) = Ok () \<and> db (snd (updateSavedServer e u index w)) = db w"
proof -
  obtain out w1 where c: "checkDomain e u (ignoreCerts (ds ! index)) True w = (out, w1)"
    by fastforce
  with assms(3) have "\<And>r. out \<noteq> Resolved r" by (metis fst_conv)
  then have o: "out = Pending \<or> (\<exists>v. out = Rejected v)" by (cases out) auto
  from c have "db w1 = db w" by (metis checkDomain_silent_db snd_conv)
  with o show ?thesis
    using assms(1,2) c by (auto simp: updateSavedServer_def getDomain_stored)
qed

text \<open>
  When the silent check resolves, the record at the index is replaced by the resolved
  record with the icon that \<open>saveServerIcon\<close> returns.
\<close>

lemma updateSavedServer_resolved:
  assumes "db w = Doc (Some ds)" and "index < length ds"
    and "checkDomain e u (ignoreCerts (ds ! index)) True w = (Resolved conf, w1)"
    and "fst (saveServerIcon e (Conf conf) (ignoreCerts (ds ! index)) w1) = Resolved localIconUrl"
  shows "fst (updateSavedServer e u index w) = Ok () \<and>
         db (snd (updateSavedServer e u index w)) = Doc (Some (ds[index := conf\<lparr>icon := localIconUrl\<rparr>]))"
proof -
  let ?ic = "ignoreCerts (ds ! index)"
  obtain w2 where s: "saveServerIcon e (Conf conf) ?ic w1 = (Resolved localIconUrl, w2)"
    using assms(4) by (metis fst_conv surj_pair)
  from assms(3) have "db w1 = db w" by (metis checkDomain_silent_db snd_conv)
  with s assms(1) have d2: "db w2 = Doc (Some ds)" by (metis saveServerIcon_db snd_conv)
  show ?thesis
    using assms(1,2)
    by (simp add: updateSavedServer_def getDomain_stored assms(3) s updateDomain_stored [OF d2])
qed

lemma updateSavedServer_pending:
  assumes "db w = Doc (Some ds)" and "index < length ds"
    and "fst (getServerSettings e (formatUrl u) (ignoreCerts (ds ! index)) w) = Pending"
  shows "db (snd (updateSavedServer e u index w)) = db w"
proof -
  from assms(3) have "\<And>r. fst (checkDomain e u (ignoreCerts (ds ! index)) True w) \<noteq> Resolved r"
    by (simp add: checkDomain_verify Let_def)
  from updateSavedServer_not_resolved [OF assms(1,2) this] show ?thesis by simp
qed

text \<open>
  Claim C1, as the code has it: let the settings request of the silent refresh of the
  record at \<open>index\<close> be rejected. If the error text contains \<open>certificate\<close> or the URL
  contains \<open>zulipdev.org\<close>, the silent check resolves with the placeholder and the record
  at \<open>index\<close> is replaced by it (default icon, the URL as alias, the stored
  \<open>ignoreCerts\<close>), the other records staying as they are. In every other case the
  collection is unchanged.
\<close>

theorem updateSavedServer_failure:
  assumes "db w = Doc (Some ds)" and "index < length ds"
    and "fst (getServerSettings e (formatUrl u) (ignoreCerts (ds ! index)) w) = Rejected err"
  shows "fst (updateSavedServer e u index w) = Ok () \<and>
         stored_domains (snd (updateSavedServer e u index w)) =
           (if whitelisted (formatUrl u) \<or> certsError (or_empty err)
            then ds[index := \<lparr>icon = defaultIconUrl, url = formatUrl u, alias_name = formatUrl u,
                                ignoreCerts = ignoreCerts (ds ! index)\<rparr>]
            else ds)"
proof (cases "whitelisted (formatUrl u) \<or> certsError (or_empty err)")
  case True
  let ?ic = "ignoreCerts (ds ! index)"
  let ?conf = "\<lparr>icon = defaultIconUrl, url = formatUrl u, alias_name = formatUrl u, ignoreCerts = ?ic\<rparr>"
  let ?w1 = "emit (HttpRequest (formatUrl u @ ''/api/v1/server_settings'') ?ic) w"
  from True assms(3) have c: "checkDomain e u ?ic True w = (Resolved ?conf, ?w1)"
    by (simp add: checkDomain_verify checkCertError_def Let_def)
  have s: "fst (saveServerIcon e (Conf ?conf) ?ic ?w1) = Resolved defaultIconUrl"
    by (simp add: saveServerIcon_default)
  from updateSavedServer_resolved [OF assms(1,2) c s] True show ?thesis
    by (simp add: stored_domains_eq)
next
  case False
  with assms(3) have "\<And>r. fst (checkDomain e u (ignoreCerts (ds ! index)) True w) \<noteq> Resolved r"
    by (simp add: checkDomain_verify Let_def)
  from updateSavedServer_not_resolved [OF assms(1,2) this] False assms(1) show ?thesis
    by (simp add: stored_domains_eq)
qed

theorem updateSavedServer_failure_witness:
  "stored_domains (snd (updateSavedServer offline ''https://chat.example.com'' 1
      (registry [dev_server, example_server]))) = [dev_server, example_server]"
proof -
  let ?w = "registry [dev_server, example_server]"
  have a: "db ?w = Doc (Some [dev_server, example_server])" by (simp add: registry_def)
  have b: "1 < length [dev_server, example_server]" by simp
  have f: "formatUrl ''https://chat.example.com'' = ''https://chat.example.com''"
    by (simp add: formatUrl_def indexOf_def)
  have c: "fst (getServerSettings offline (formatUrl ''https://chat.example.com'')
      (ignoreCerts ([dev_server, example_server] ! 1)) ?w) = Rejected Undefined"
    by (rule offline_settings)
  have n: "\<not> (whitelisted ''https://chat.example.com'' \<or> certsError (or_empty Undefined))"
    by (simp add: whitelisted_def certsError_def includes_js_def indexOf_def)
  from updateSavedServer_failure [OF a b c] n show ?thesis
    by (simp add: f)
qed

text \<open>
  The refresh of a development server that cannot be reached replaces its record by the
  placeholder: the alias and the icon are lost.
\<close>

theorem updateSavedServer_overwrites_counterexample:
  "fst (getServerSettings offline ''https://chat.zulipdev.org'' False (registry [dev_server])) =
     Rejected Undefined \<and>
   stored_domains (registry [dev_server]) = [dev_server] \<and>
   stored_domains (snd (updateSavedServer offline ''https://chat.zulipdev.org'' 0 (registry [dev_server]))) =
     [\<lparr>icon = ''../renderer/img/icon.png'', url = ''https://chat.zulipdev.org'',
       alias_name = ''https://chat.zulipdev.org'', ignoreCerts = False\<rparr>] \<and>
   alias_name dev_server = ''Dev''"
proof -
  let ?w = "registry [dev_server]"
  let ?u = "''https://chat.zulipdev.org''"
  let ?conf = "\<lparr>icon = defaultIconUrl, url = ?u, alias_name = ?u, ignoreCerts = False\<rparr>"
  let ?w1 = "emit (HttpRequest (?u @ ''/api/v1/server_settings'') False) ?w"
  have a: "db ?w = Doc (Some [dev_server])" by (simp add: registry_def)
  have b: "0 < length [dev_server]" by simp
  have i: "ignoreCerts ([dev_server] ! 0) = False" by (simp add: dev_server_def)
  have f: "formatUrl ?u = ?u" by (simp add: formatUrl_def indexOf_def)
  have wl: "whitelisted ?u" by (simp add: whitelisted_def indexOf_def)
  have "checkDomain offline ?u False True ?w = (Resolved ?conf, ?w1)"
    by (simp add: checkDomain_verify f offline_settings wl checkCertError_def Let_def)
  then have c: "checkDomain offline ?u (ignoreCerts ([dev_server] ! 0)) True ?w = (Resolved ?conf, ?w1)"
    by (simp only: i)
  have s: "fst (saveServerIcon offline (Conf ?conf) (ignoreCerts ([dev_server] ! 0)) ?w1) = Resolved defaultIconUrl"
    by (simp add: saveServerIcon_default)
  from updateSavedServer_resolved [OF a b c s] show ?thesis
    by (simp add: stored_domains_eq offline_settings registry_def dev_server_def defaultIconUrl_def)
qed

end
